theory Spec2Isabelle
  imports Complex_Main "HOL-Library.AList"
begin

section \<open>Python values\<close>

text \<open>
  The program is \<^verbatim>\<open>generate_maps.py\<close>: it reads the EXIF block of each image with Pillow,
  turns the GPS fields into decimal degrees and renders one HTML page with a marker per
  image.

  Python is dynamically typed, and several properties of the program are about what it does
  on values of the wrong shape, so the metadata is modelled as a datatype of Python values.
  A \<^verbatim>\<open>float\<close> is modelled by the rational number it stands for: arithmetic on floats is
  exact here, the rounding of IEEE doubles is not part of the model. The one exception
  that float arithmetic raises in this program, \<^verbatim>\<open>OverflowError\<close> of a quotient of
  integers too large for a double, is.
  \<open>PRational n d\<close> is Pillow's \<^verbatim>\<open>IFDRational\<close>, an object with the attributes
  \<^verbatim>\<open>numerator\<close> and \<^verbatim>\<open>denominator\<close>. A dictionary is an association list in
  insertion order; its keys are strings or integers (tag names or numeric tag ids).
\<close>

datatype error =
    AttributeError
  | IndexError
  | KeyError
  | TypeError
  | ZeroDivisionError
  | OverflowError
  | OSError

datatype pykey = KStr string | KInt int

datatype pyval =
    PNone
  | PInt int
  | PFloat rat
  | PStr string
  | PBytes "nat list"
  | PRational int int
  | PTuple "pyval list"
  | PDict "(pykey \<times> pyval) list"

text \<open>Sequencing of computations that may raise: the first exception ends the computation.\<close>

definition bind_res :: "error + 'a \<Rightarrow> ('a \<Rightarrow> error + 'b) \<Rightarrow> error + 'b" where
  "bind_res m f = (case m of Inl e \<Rightarrow> Inl e | Inr x \<Rightarrow> f x)"

text \<open>
  Truth value of an object, as \<^verbatim>\<open>if x\<close>, \<^verbatim>\<open>not x\<close> and \<^verbatim>\<open>x and y\<close> test it:
  \<^verbatim>\<open>None\<close>, zero and every empty container are false. An \<^verbatim>\<open>IFDRational\<close> is false
  when it equals zero; with denominator zero its value is NaN, which is true.
\<close>

fun py_truthy :: "pyval \<Rightarrow> bool" where
  "py_truthy PNone = False"
| "py_truthy (PInt n) = (n \<noteq> 0)"
| "py_truthy (PFloat x) = (x \<noteq> 0)"
| "py_truthy (PStr s) = (s \<noteq> [])"
| "py_truthy (PBytes b) = (b \<noteq> [])"
| "py_truthy (PRational n d) = (d = 0 \<or> n \<noteq> 0)"
| "py_truthy (PTuple xs) = (xs \<noteq> [])"
| "py_truthy (PDict kvs) = (kvs \<noteq> [])"

text \<open>\<^verbatim>\<open>d.get(k)\<close> on a dictionary: the value stored under the key, \<^verbatim>\<open>None\<close> without it.\<close>

definition dict_get :: "(pykey \<times> pyval) list \<Rightarrow> pykey \<Rightarrow> pyval" where
  "dict_get d k = (case map_of d k of None \<Rightarrow> PNone | Some v \<Rightarrow> v)"

text \<open>\<^verbatim>\<open>x.get(name)\<close> on any object: only a dictionary has the method.\<close>

fun py_get :: "pyval \<Rightarrow> string \<Rightarrow> error + pyval" where
  "py_get (PDict d) name = Inr (dict_get d (KStr name))"
| "py_get _ name = Inl AttributeError"

text \<open>Indexing a sequence by an integer; a negative index counts from the end.\<close>

definition seq_get :: "'a list \<Rightarrow> int \<Rightarrow> error + 'a" where
  "seq_get xs i =
     (if 0 \<le> i \<and> i < int (length xs) then Inr (xs ! nat i)
      else if i < 0 \<and> - int (length xs) \<le> i then Inr (xs ! nat (int (length xs) + i))
      else Inl IndexError)"

text \<open>
  Hashable objects: everything but a dictionary, and a tuple of hashable objects.
  \<open>py_key\<close> is the string or integer key an object is equal to, if any: a float or a
  rational with an integral value hashes and compares like that integer.
\<close>

fun py_hashable :: "pyval \<Rightarrow> bool" where
  "py_hashable (PDict kvs) = False"
| "py_hashable (PTuple xs) = list_all py_hashable xs"
| "py_hashable _ = True"

fun py_key :: "pyval \<Rightarrow> pykey option" where
  "py_key (PInt i) = Some (KInt i)"
| "py_key (PStr s) = Some (KStr s)"
| "py_key (PFloat x) = (if x = of_int \<lfloor>x\<rfloor> then Some (KInt \<lfloor>x\<rfloor>) else None)"
| "py_key (PRational n d) = (if d \<noteq> 0 \<and> d dvd n then Some (KInt (n div d)) else None)"
| "py_key _ = None"

text \<open>\<^verbatim>\<open>x[t]\<close>: a tuple, a string and a bytes object take an integer, a dictionary a key.\<close>

fun py_getitem :: "pyval \<Rightarrow> pyval \<Rightarrow> error + pyval" where
  "py_getitem (PTuple xs) (PInt i) = seq_get xs i"
| "py_getitem (PTuple xs) _ = Inl TypeError"
| "py_getitem (PStr s) (PInt i) = seq_get (map (\<lambda>c. PStr [c]) s) i"
| "py_getitem (PStr s) _ = Inl TypeError"
| "py_getitem (PBytes b) (PInt i) = seq_get (map (\<lambda>n. PInt (int n)) b) i"
| "py_getitem (PBytes b) _ = Inl TypeError"
| "py_getitem (PDict d) t =
     (if \<not> py_hashable t then Inl TypeError
      else case py_key t of
             None \<Rightarrow> Inl KeyError
           | Some k \<Rightarrow> (case map_of d k of None \<Rightarrow> Inl KeyError | Some v \<Rightarrow> Inr v))"
| "py_getitem _ _ = Inl TypeError"

text \<open>
  The attributes \<^verbatim>\<open>numerator\<close> and \<^verbatim>\<open>denominator\<close>: an \<^verbatim>\<open>int\<close> and an
  \<^verbatim>\<open>IFDRational\<close> have them, no other object of the model has.
\<close>

fun py_numerator :: "pyval \<Rightarrow> error + int" where
  "py_numerator (PInt n) = Inr n"
| "py_numerator (PRational n d) = Inr n"
| "py_numerator _ = Inl AttributeError"

fun py_denominator :: "pyval \<Rightarrow> error + int" where
  "py_denominator (PInt n) = Inr 1"
| "py_denominator (PRational n d) = Inr d"
| "py_denominator _ = Inl AttributeError"

text \<open>
  A quotient fits a double when the double nearest to it is finite: its magnitude is
  below \<open>2^1024 - 2^970\<close>, half way between the largest double and \<open>2^1024\<close>.
\<close>

definition fits_double :: "rat \<Rightarrow> bool" where
  "fits_double q = (\<bar>q\<bar> < 2 ^ 1024 - 2 ^ 970)"

text \<open>
  \<^verbatim>\<open>n / d\<close> on two integers: true division, which gives a float. It raises
  \<^verbatim>\<open>ZeroDivisionError\<close> on a zero divisor and \<^verbatim>\<open>OverflowError\<close> on a quotient too
  large for a float.
\<close>

definition int_truediv :: "int \<Rightarrow> int \<Rightarrow> error + rat" where
  "int_truediv n d =
     (if d = 0 then Inl ZeroDivisionError
      else if \<not> fits_double (of_int n / of_int d) then Inl OverflowError
      else Inr (of_int n / of_int d))"

section \<open>The coordinate resolver\<close>

text \<open>
  \<^verbatim>\<open>convert_dms_to_decimal(dms_coords)\<close>, called on a tuple of three floats.
\<close>

definition convert_dms_to_decimal :: "rat \<times> rat \<times> rat \<Rightarrow> rat" where
  "convert_dms_to_decimal dms_coords =
     (case dms_coords of (degrees, minutes, seconds) \<Rightarrow>
        degrees + (minutes / 60) + (seconds / 3600))"

text \<open>
  \<^verbatim>\<open>x[i].numerator / x[i].denominator\<close>: the object is indexed twice, once for each
  attribute, and the quotient is taken last.
\<close>

definition component :: "pyval \<Rightarrow> int \<Rightarrow> error + rat" where
  "component x i =
     bind_res (py_getitem x (PInt i)) (\<lambda>a.
     bind_res (py_numerator a) (\<lambda>n.
     bind_res (py_getitem x (PInt i)) (\<lambda>b.
     bind_res (py_denominator b) (\<lambda>d.
     int_truediv n d))))"

text \<open>The argument tuple of \<^verbatim>\<open>convert_dms_to_decimal\<close>, built component by component.\<close>

definition dms_tuple :: "pyval \<Rightarrow> error + (rat \<times> rat \<times> rat)" where
  "dms_tuple x =
     bind_res (component x 0) (\<lambda>degrees.
     bind_res (component x 1) (\<lambda>minutes.
     bind_res (component x 2) (\<lambda>seconds.
     Inr (degrees, minutes, seconds))))"

text \<open>
  \<^verbatim>\<open>get_gps_coordinates(exif_data)\<close>. The result is the pair \<^verbatim>\<open>(lat, lon)\<close>, each
  \<^verbatim>\<open>None\<close> or a float, or the exception the function lets through: it has no handler of
  its own.
\<close>

definition get_gps_coordinates :: "(pykey \<times> pyval) list \<Rightarrow> error + (rat option \<times> rat option)" where
  "get_gps_coordinates exif_data =
     (let gps_info = dict_get exif_data (KStr ''GPSInfo'') in
      if \<not> py_truthy gps_info then Inr (None, None)
      else
        bind_res (py_get gps_info ''GPSLatitude'') (\<lambda>gps_latitude.
        bind_res (py_get gps_info ''GPSLatitudeRef'') (\<lambda>gps_latitude_ref.
        bind_res (py_get gps_info ''GPSLongitude'') (\<lambda>gps_longitude.
        bind_res (py_get gps_info ''GPSLongitudeRef'') (\<lambda>gps_longitude_ref.
          if py_truthy gps_latitude \<and> py_truthy gps_latitude_ref
             \<and> py_truthy gps_longitude \<and> py_truthy gps_longitude_ref
          then
            bind_res (dms_tuple gps_latitude) (\<lambda>lat_dms.
            let lat = convert_dms_to_decimal lat_dms;
                lat = (if gps_latitude_ref \<noteq> PStr ''N'' then - lat else lat)
            in
            bind_res (dms_tuple gps_longitude) (\<lambda>lon_dms.
            let lon = convert_dms_to_decimal lon_dms;
                lon = (if gps_longitude_ref \<noteq> PStr ''E'' then - lon else lon)
            in Inr (Some lat, Some lon)))
          else Inr (None, None))))))"

section \<open>The metadata reader\<close>

text \<open>
  Pillow is not part of the program; what the program asks of it is a parameter of the
  model. \<open>getexif path\<close> is the outcome of \<^verbatim>\<open>Image.open(path)\<close> followed by
  \<^verbatim>\<open>img._getexif()\<close>: the exception either of them raises, \<^verbatim>\<open>None\<close> for an image
  without EXIF block, or the items of the dictionary from numeric tag ids to values, in
  its order. \<open>TAGS\<close> and \<open>GPSTAGS\<close> are the two tables of \<^verbatim>\<open>PIL.ExifTags\<close>, from tag
  ids to tag names.
\<close>

record pillow =
  getexif :: "string \<Rightarrow> error + (int \<times> pyval) list option"
  TAGS :: "int \<Rightarrow> string option"
  GPSTAGS :: "int \<Rightarrow> string option"

text \<open>What the program prints: one line for a read failure, one for an image without GPS data.\<close>

datatype event =
    ExifError string error
  | NoGpsWarning string

text \<open>
  \<^verbatim>\<open>table.get(t, t)\<close> on a table keyed by integers: the name of a known id, the key
  itself otherwise.
\<close>

fun tag_name :: "(int \<Rightarrow> string option) \<Rightarrow> pykey \<Rightarrow> pykey" where
  "tag_name table (KInt i) = (case table i of None \<Rightarrow> KInt i | Some name \<Rightarrow> KStr name)"
| "tag_name table (KStr s) = KStr s"

text \<open>\<^verbatim>\<open>for t in value\<close>: the objects the loop visits, or the exception of an object that cannot be iterated.\<close>

fun key_val :: "pykey \<Rightarrow> pyval" where
  "key_val (KInt i) = PInt i"
| "key_val (KStr s) = PStr s"

fun py_iter :: "pyval \<Rightarrow> error + pyval list" where
  "py_iter (PTuple xs) = Inr xs"
| "py_iter (PStr s) = Inr (map (\<lambda>c. PStr [c]) s)"
| "py_iter (PBytes b) = Inr (map (\<lambda>n. PInt (int n)) b)"
| "py_iter (PDict d) = Inr (map (\<lambda>kv. key_val (fst kv)) d)"
| "py_iter _ = Inl TypeError"

text \<open>
  The inner loop of \<^verbatim>\<open>get_exif_data\<close>, over the objects \<open>ts\<close> still to visit:
  \<^verbatim>\<open>sub_decoded = GPSTAGS.get(t, t); gps_data[sub_decoded] = value[t]\<close>.
  The lookup in the table hashes \<open>t\<close>; \<open>value[t]\<close> is evaluated before the store. Where
  \<open>value[t]\<close> succeeds, \<open>t\<close> is an integer or a string, so the last exception is never
  raised.
\<close>

fun gps_entries ::
  "(int \<Rightarrow> string option) \<Rightarrow> pyval \<Rightarrow> pyval list \<Rightarrow> (pykey \<times> pyval) list
    \<Rightarrow> error + (pykey \<times> pyval) list" where
  "gps_entries table value [] gps_data = Inr gps_data"
| "gps_entries table value (t # ts) gps_data =
     (if \<not> py_hashable t then Inl TypeError
      else
        bind_res (py_getitem value t) (\<lambda>v.
        case py_key t of
          None \<Rightarrow> Inl TypeError
        | Some k \<Rightarrow> gps_entries table value ts (AList.update (tag_name table k) v gps_data)))"

text \<open>
  The outer loop, over the items of \<^verbatim>\<open>info\<close> still to visit. \<open>exif_data\<close> is the
  dictionary as filled so far; an exception leaves it as it is and ends the loop.
\<close>

fun exif_entries ::
  "pillow \<Rightarrow> (int \<times> pyval) list \<Rightarrow> (pykey \<times> pyval) list
    \<Rightarrow> (pykey \<times> pyval) list \<times> error option" where
  "exif_entries P [] exif_data = (exif_data, None)"
| "exif_entries P ((tag, value) # rest) exif_data =
     (let decoded = tag_name (TAGS P) (KInt tag) in
      if decoded = KStr ''GPSInfo'' then
        (case bind_res (py_iter value) (\<lambda>ts. gps_entries (GPSTAGS P) value ts []) of
           Inl e \<Rightarrow> (exif_data, Some e)
         | Inr gps_data \<Rightarrow> exif_entries P rest (AList.update decoded (PDict gps_data) exif_data))
      else exif_entries P rest (AList.update decoded value exif_data))"

text \<open>
  \<^verbatim>\<open>get_exif_data(image_path)\<close>: the dictionary returned and the lines printed. The
  handler \<^verbatim>\<open>except Exception\<close> prints the exception and falls through to
  \<^verbatim>\<open>return exif_data\<close>.
\<close>

definition get_exif_data :: "pillow \<Rightarrow> string \<Rightarrow> (pykey \<times> pyval) list \<times> event list" where
  "get_exif_data P image_path =
     (case getexif P image_path of
        Inl e \<Rightarrow> ([], [ExifError image_path e])
      | Inr info \<Rightarrow>
          (case info of
             None \<Rightarrow> ([], [])
           | Some items \<Rightarrow>
               if items \<noteq> [] then
                 (case exif_entries P items [] of
                    (exif_data, None) \<Rightarrow> (exif_data, [])
                  | (exif_data, Some e) \<Rightarrow> (exif_data, [ExifError image_path e]))
               else ([], [])))"

section \<open>The page builder\<close>

text \<open>An entry of \<^verbatim>\<open>places_data\<close>: a dictionary with the four keys below, in this order.\<close>

record place =
  place_name :: string
  place_lat :: rat
  place_lon :: rat
  place_image :: string

text \<open>\<^verbatim>\<open>os.path.basename\<close> (POSIX): what follows the last slash.\<close>

definition basename :: "string \<Rightarrow> string" where
  "basename p = rev (takeWhile (\<lambda>c. c \<noteq> CHR ''/'') (rev p))"

text \<open>
  The first loop of \<^verbatim>\<open>generate_maps_html\<close>, over the files still to visit, with the
  list \<^verbatim>\<open>places_data\<close> and the lines printed so far. An exception of the resolver
  is not handled: it ends the loop, and the call.
\<close>

fun collect_places ::
  "pillow \<Rightarrow> string list \<Rightarrow> place list \<Rightarrow> event list \<Rightarrow> (error + place list) \<times> event list" where
  "collect_places P [] places_data out = (Inr places_data, out)"
| "collect_places P (img_file # rest) places_data out =
     (case get_exif_data P img_file of (exif, printed) \<Rightarrow>
        (case get_gps_coordinates exif of
           Inl e \<Rightarrow> (Inl e, out @ printed)
         | Inr (Some latitude, Some longitude) \<Rightarrow>
             collect_places P rest
               (places_data @
                 [\<lparr>place_name = basename img_file, place_lat = latitude,
                   place_lon = longitude, place_image = basename img_file\<rparr>])
               (out @ printed)
         | Inr _ \<Rightarrow>
             collect_places P rest places_data (out @ printed @ [NoGpsWarning img_file])))"

text \<open>The center of the map: the default, or the average of the points.\<close>

definition map_center :: "place list \<Rightarrow> rat \<times> rat" where
  "map_center places_data =
     (let center_lat = 60.6; center_lon = 15.5 in
      if places_data \<noteq> [] then
        (let avg_lat = sum_list (map place_lat places_data) / of_nat (length places_data);
             avg_lon = sum_list (map place_lon places_data) / of_nat (length places_data)
         in (avg_lat, avg_lon))
      else (center_lat, center_lon))"

text \<open>
  The page is an f-string: a fixed text with three holes. What Python writes for a
  float and for a string (\<^verbatim>\<open>repr\<close>) is a parameter of the model; a list and a
  dictionary are written from the texts of their elements.
\<close>

record py_repr =
  float_repr :: "rat \<Rightarrow> string"
  str_repr :: "string \<Rightarrow> string"

definition place_repr :: "py_repr \<Rightarrow> place \<Rightarrow> string" where
  "place_repr R p =
     ''{'name': '' @ str_repr R (place_name p) @
     '', 'lat': '' @ float_repr R (place_lat p) @
     '', 'lon': '' @ float_repr R (place_lon p) @
     '', 'image': '' @ str_repr R (place_image p) @ ''}''"

fun join :: "string \<Rightarrow> string list \<Rightarrow> string" where
  "join sep [] = []"
| "join sep [x] = x"
| "join sep (x # xs) = x @ sep @ join sep xs"

definition places_repr :: "py_repr \<Rightarrow> place list \<Rightarrow> string" where
  "places_repr R places_data = ''['' @ join '', '' (map (place_repr R) places_data) @ '']''"

definition page_head :: string where
  "page_head =
     ''<!DOCTYPE html>\<newline>'' @
     ''<html>\<newline>'' @
     ''<head>\<newline>'' @
     ''    <title>My Personal Photo Map</title>\<newline>'' @
     ''    <meta charset=\"utf-8\" />\<newline>'' @
     ''    <meta name=\"viewport\" content=\"width=device-width, initial-scale=1.0\">\<newline>'' @
     ''    <link rel=\"stylesheet\" href=\"https://unpkg.com/leaflet@1.9.4/dist/leaflet.css\" />\<newline>'' @
     ''    <script src=\"https://unpkg.com/leaflet@1.9.4/dist/leaflet.js\"></script>\<newline>'' @
     ''    <style>\<newline>'' @
     ''        html, body { height: 100%; margin: 0; padding: 0; }\<newline>'' @
     ''        #map { width: 100%; height: 100%; }\<newline>'' @
     ''        .leaflet-popup-content-wrapper { background-color: #f9f9f9; border-radius: 8px; }\<newline>'' @
     ''        .leaflet-popup-content { margin: 15px; text-align: center; }\<newline>'' @
     ''        .popup-image { max-width: 200px; height: auto; border-radius: 5px; margin-bottom: 5px; }\<newline>'' @
     ''    </style>\<newline>'' @
     ''</head>\<newline>'' @
     ''<body>\<newline>'' @
     ''<div id=\"map\"></div>\<newline>'' @
     ''<script>\<newline>'' @
     ''    const map = L.map('map').setView([''"

definition page_sep :: string where
  "page_sep =
     '', ''"

definition page_mid :: string where
  "page_mid =
     ''], 8);\<newline>'' @
     ''    L.tileLayer('https://{s}.tile.opentopomap.org/{z}/{x}/{y}.png', {\<newline>'' @
     ''        maxZoom: 17,\<newline>'' @
     ''        attribution: 'Map data: &copy; <a href=\"https://www.openstreetmap.org/copyright\">OpenStreetMap</a> contributors, <a href=\"http://viewfinderpanoramas.org\">SRTM</a> | Map style: &copy; <a href=\"https://opentopomap.org\">OpenTopoMap</a> (<a href=\"https://creativecommons.org/licenses/by-sa/3.0/\">CC-BY-SA</a>)'\<newline>'' @
     ''    }).addTo(map);\<newline>'' @
     ''\<newline>'' @
     ''    const places = ''"

definition page_tail :: string where
  "page_tail =
     '';\<newline>'' @
     ''\<newline>'' @
     ''    const markers = [];\<newline>'' @
     ''    places.forEach(place => {\<newline>'' @
     ''        const marker = L.marker([place.lat, place.lon]);\<newline>'' @
     ''        markers.push(marker);\<newline>'' @
     ''\<newline>'' @
     ''        const popupContent = `\<newline>'' @
     ''            <b>${place.name}</b><br>\<newline>'' @
     ''            <img src=\"${place.image}\" alt=\"${place.name}\" class=\"popup-image\">\<newline>'' @
     ''        `;\<newline>'' @
     ''        marker.bindPopup(popupContent);\<newline>'' @
     ''        marker.on('mouseover', function (e) { this.openPopup(); });\<newline>'' @
     ''        marker.on('mouseout', function (e) { this.closePopup(); });\<newline>'' @
     ''        marker.addTo(map);\<newline>'' @
     ''    });\<newline>'' @
     ''\<newline>'' @
     ''    if (markers.length > 0) {\<newline>'' @
     ''        const group = new L.featureGroup(markers);\<newline>'' @
     ''        map.fitBounds(group.getBounds());\<newline>'' @
     ''    }\<newline>'' @
     ''</script>\<newline>'' @
     ''</body>\<newline>'' @
     ''</html>''"

definition maps_html_content :: "py_repr \<Rightarrow> rat \<times> rat \<Rightarrow> place list \<Rightarrow> string" where
  "maps_html_content R center places_data =
     (case center of (center_lat, center_lon) \<Rightarrow>
        page_head @ float_repr R center_lat @ page_sep @ float_repr R center_lon @
        page_mid @ places_repr R places_data @ page_tail)"

text \<open>
  \<^verbatim>\<open>generate_maps_html(image_files)\<close>: the page, or the exception that ended the call,
  and the lines printed.
\<close>

definition generate_maps_html ::
  "pillow \<Rightarrow> py_repr \<Rightarrow> string list \<Rightarrow> (error + string) \<times> event list" where
  "generate_maps_html P R image_files =
     (case collect_places P image_files [] [] of
        (Inl e, out) \<Rightarrow> (Inl e, out)
      | (Inr places_data, out) \<Rightarrow>
          (Inr (maps_html_content R (map_center places_data) places_data), out))"


section \<open>Notions used by the properties\<close>

text \<open>The four fields \<^verbatim>\<open>get_gps_coordinates\<close> reads from the GPS dictionary.\<close>

definition required_fields :: "string list" where
  "required_fields = [''GPSLatitude'', ''GPSLatitudeRef'', ''GPSLongitude'', ''GPSLongitudeRef'']"

text \<open>
  A GPS field of a metadata dictionary, as the resolver sees it: the entry of the
  dictionary stored under \<^verbatim>\<open>GPSInfo\<close>, \<^verbatim>\<open>None\<close> where there is none.
\<close>

definition gps_field :: "(pykey \<times> pyval) list \<Rightarrow> string \<Rightarrow> pyval" where
  "gps_field exif_data name =
     (case dict_get exif_data (KStr ''GPSInfo'') of
        PDict g \<Rightarrow> dict_get g (KStr name)
      | _ \<Rightarrow> PNone)"

text \<open>
  A well-formed DMS field: it can be indexed at 0, 1 and 2, and each of the three
  components has a numerator and a denominator, the denominator not zero and the quotient
  not too large for a float.
\<close>

definition rational_ok :: "pyval \<Rightarrow> bool" where
  "rational_ok a =
     (case (py_numerator a, py_denominator a) of
        (Inr n, Inr d) \<Rightarrow> d \<noteq> 0 \<and> fits_double (of_int n / of_int d)
      | _ \<Rightarrow> False)"

text \<open>
  The items of an EXIF dictionary that the reader decodes as GPS dictionary: those
  whose tag id the table \<^verbatim>\<open>TAGS\<close> names \<^verbatim>\<open>GPSInfo\<close>. In Pillow's table one id has
  that name, so a dictionary, whose keys are distinct, has at most one such item.
\<close>

definition gps_items :: "pillow \<Rightarrow> (int \<times> pyval) list \<Rightarrow> (int \<times> pyval) list" where
  "gps_items P items =
     filter (\<lambda>item. tag_name (TAGS P) (KInt (fst item)) = KStr ''GPSInfo'') items"

definition dms_well_formed :: "pyval \<Rightarrow> bool" where
  "dms_well_formed x =
     list_all (\<lambda>i. case py_getitem x (PInt i) of Inr a \<Rightarrow> rational_ok a | Inl e \<Rightarrow> False)
       [0, 1, 2]"

text \<open>
  What one image contributes to a run of \<^verbatim>\<open>generate_maps_html\<close>: the outcome of the
  resolver on the metadata the reader returns, the entry appended to
  \<^verbatim>\<open>places_data\<close> when both coordinates are resolved, and the lines printed.
\<close>

definition coordinates :: "pillow \<Rightarrow> string \<Rightarrow> error + (rat option \<times> rat option)" where
  "coordinates P img_file = get_gps_coordinates (fst (get_exif_data P img_file))"

definition place_of :: "pillow \<Rightarrow> string \<Rightarrow> place option" where
  "place_of P img_file =
     (case coordinates P img_file of
        Inr (Some latitude, Some longitude) \<Rightarrow>
          Some \<lparr>place_name = basename img_file, place_lat = latitude,
                place_lon = longitude, place_image = basename img_file\<rparr>
      | _ \<Rightarrow> None)"

definition resolved_places :: "pillow \<Rightarrow> string list \<Rightarrow> place list" where
  "resolved_places P image_files = List.map_filter (place_of P) image_files"

definition printed_for :: "pillow \<Rightarrow> string \<Rightarrow> event list" where
  "printed_for P img_file =
     snd (get_exif_data P img_file)
     @ (if place_of P img_file = None then [NoGpsWarning img_file] else [])"

section \<open>Example inputs\<close>

text \<open>
  A metadata dictionary whose GPS fields are triples of rationals, 40 deg 26 min 46 s
  and 79 deg 56 min 55 s, with the two hemisphere references left open.
\<close>

definition rational_gps :: "pyval \<Rightarrow> pyval \<Rightarrow> (pykey \<times> pyval) list" where
  "rational_gps lat_ref lon_ref =
     [(KStr ''GPSLatitudeRef'', lat_ref),
      (KStr ''GPSLatitude'', PTuple [PRational 40 1, PRational 26 1, PRational 4600 100]),
      (KStr ''GPSLongitudeRef'', lon_ref),
      (KStr ''GPSLongitude'', PTuple [PRational 79 1, PRational 56 1, PRational 5500 100])]"

definition rational_exif :: "pyval \<Rightarrow> pyval \<Rightarrow> (pykey \<times> pyval) list" where
  "rational_exif lat_ref lon_ref =
     [(KStr ''Make'', PStr ''Canon''), (KStr ''GPSInfo'', PDict (rational_gps lat_ref lon_ref))]"

text \<open>The same place with the components given as plain integers.\<close>

definition integer_exif :: "(pykey \<times> pyval) list" where
  "integer_exif =
     [(KStr ''GPSInfo'', PDict
        [(KStr ''GPSLatitude'', PTuple [PInt 40, PInt 26, PInt 46]),
         (KStr ''GPSLatitudeRef'', PStr ''N''),
         (KStr ''GPSLongitude'', PTuple [PInt 79, PInt 56, PInt 55]),
         (KStr ''GPSLongitudeRef'', PStr ''W'')])]"

text \<open>A GPS dictionary without the longitude reference.\<close>

definition no_lon_ref_exif :: "(pykey \<times> pyval) list" where
  "no_lon_ref_exif =
     [(KStr ''GPSInfo'', PDict
        [(KStr ''GPSLatitude'', PTuple [PRational 40 1, PRational 26 1, PRational 46 1]),
         (KStr ''GPSLatitudeRef'', PStr ''N''),
         (KStr ''GPSLongitude'', PTuple [PRational 79 1, PRational 56 1, PRational 55 1])])]"

text \<open>A GPS dictionary with a given latitude field, the other three fields in order.\<close>

definition latitude_exif :: "pyval \<Rightarrow> (pykey \<times> pyval) list" where
  "latitude_exif latitude =
     [(KStr ''GPSInfo'', PDict
        [(KStr ''GPSLatitude'', latitude),
         (KStr ''GPSLatitudeRef'', PStr ''N''),
         (KStr ''GPSLongitude'', PTuple [PRational 79 1, PRational 56 1, PRational 55 1]),
         (KStr ''GPSLongitudeRef'', PStr ''W'')])]"

text \<open>
  A directory as Pillow shows it: two images with GPS data, one whose GPS block could
  not be read (Pillow gives \<^verbatim>\<open>None\<close> for it), one whose latitude has the seconds
  0/0, one without EXIF block; any other path cannot be opened.
\<close>

definition broken_items :: "(int \<times> pyval) list" where
  "broken_items = [(271, PStr ''Canon''), (34853, PNone), (272, PStr ''EOS'')]"

definition example_pillow :: pillow where
  "example_pillow =
     \<lparr>getexif = (\<lambda>path.
        if path = ''photos/pittsburgh.jpg'' then
          Inr (Some [(271, PStr ''Canon''),
                     (34853, PDict
                        [(KInt 1, PStr ''N''),
                         (KInt 2, PTuple [PRational 40 1, PRational 26 1, PRational 46 1]),
                         (KInt 3, PStr ''W''),
                         (KInt 4, PTuple [PRational 79 1, PRational 56 1, PRational 55 1])])])
        else if path = ''photos/sydney.jpg'' then
          Inr (Some [(34853, PDict
                        [(KInt 1, PStr ''S''),
                         (KInt 2, PTuple [PRational 33 1, PRational 52 1, PRational 4 1]),
                         (KInt 3, PStr ''E''),
                         (KInt 4, PTuple [PRational 151 1, PRational 12 1, PRational 36 1])])])
        else if path = ''photos/broken.jpg'' then Inr (Some broken_items)
        else if path = ''photos/zero.jpg'' then
          Inr (Some [(34853, PDict
                        [(KInt 1, PStr ''N''),
                         (KInt 2, PTuple [PRational 40 1, PRational 26 1, PRational 0 0]),
                         (KInt 3, PStr ''W''),
                         (KInt 4, PTuple [PRational 79 1, PRational 56 1, PRational 55 1])])])
        else if path = ''photos/scan.jpg'' then Inr None
        else Inl OSError),
      TAGS = (\<lambda>t. if t = 271 then Some ''Make'' else if t = 272 then Some ''Model''
                    else if t = 34853 then Some ''GPSInfo'' else None),
      GPSTAGS = (\<lambda>t. if t = 1 then Some ''GPSLatitudeRef''
                    else if t = 2 then Some ''GPSLatitude''
                    else if t = 3 then Some ''GPSLongitudeRef''
                    else if t = 4 then Some ''GPSLongitude'' else None)\<rparr>"

definition pittsburgh :: place where
  "pittsburgh =
     \<lparr>place_name = ''pittsburgh.jpg'', place_lat = 40 + 26 / 60 + 46 / 3600,
       place_lon = - (79 + 56 / 60 + 55 / 3600), place_image = ''pittsburgh.jpg''\<rparr>"

definition sydney :: place where
  "sydney =
     \<lparr>place_name = ''sydney.jpg'', place_lat = - (33 + 52 / 60 + 4 / 3600),
       place_lon = 151 + 12 / 60 + 36 / 3600, place_image = ''sydney.jpg''\<rparr>"

section \<open>Properties\<close>

lemma bind_res_simps:
  "bind_res (Inl e) f = Inl e"
  "bind_res (Inr x) f = f x"
  by (simp_all add: bind_res_def)

subsection \<open>The resolver, case by case\<close>

lemma get_gps_no_info:
  "\<not> py_truthy (dict_get exif_data (KStr ''GPSInfo''))
    \<Longrightarrow> get_gps_coordinates exif_data = Inr (None, None)"
  by (simp add: get_gps_coordinates_def)

lemma get_gps_not_dict:
  assumes "py_truthy (dict_get exif_data (KStr ''GPSInfo''))"
    and "\<forall>g. dict_get exif_data (KStr ''GPSInfo'') \<noteq> PDict g"
  shows "get_gps_coordinates exif_data = Inl AttributeError"
  using assms
  by (cases "dict_get exif_data (KStr ''GPSInfo'')")
     (simp_all add: get_gps_coordinates_def Let_def bind_res_simps)

lemma get_gps_dict:
  assumes "dict_get exif_data (KStr ''GPSInfo'') = PDict g"
  shows "get_gps_coordinates exif_data =
     (if g \<noteq> [] \<and> py_truthy (dict_get g (KStr ''GPSLatitude''))
         \<and> py_truthy (dict_get g (KStr ''GPSLatitudeRef''))
         \<and> py_truthy (dict_get g (KStr ''GPSLongitude''))
         \<and> py_truthy (dict_get g (KStr ''GPSLongitudeRef''))
      then bind_res (dms_tuple (dict_get g (KStr ''GPSLatitude''))) (\<lambda>lat_dms.
           bind_res (dms_tuple (dict_get g (KStr ''GPSLongitude''))) (\<lambda>lon_dms.
             Inr (Some (if dict_get g (KStr ''GPSLatitudeRef'') \<noteq> PStr ''N''
                        then - convert_dms_to_decimal lat_dms
                        else convert_dms_to_decimal lat_dms),
                  Some (if dict_get g (KStr ''GPSLongitudeRef'') \<noteq> PStr ''E''
                        then - convert_dms_to_decimal lon_dms
                        else convert_dms_to_decimal lon_dms))))
      else Inr (None, None))"
  using assms by (simp add: get_gps_coordinates_def Let_def bind_res_simps)


text \<open>A quotient of integers is no larger than its numerator; small numerators fit.\<close>

lemma fits_double_small:
  assumes "d \<noteq> 0" and "\<bar>n\<bar> < 2 ^ 64"
  shows "fits_double (of_int n / of_int d)"
proof -
  have d: "1 \<le> \<bar>of_int d :: rat\<bar>"
    using assms(1) by (metis abs_ge_zero of_int_1_le_iff of_int_abs zero_less_abs_iff
        int_one_le_iff_zero_less)
  have "\<bar>of_int n / of_int d :: rat\<bar> = \<bar>of_int n\<bar> / \<bar>of_int d\<bar>" by simp
  also have "\<dots> \<le> \<bar>of_int n\<bar>"
    using d by (simp add: field_simps mult_le_cancel_left1 mult_le_cancel_right1)
  also have "\<bar>of_int n :: rat\<bar> < 2 ^ 64"
    using assms(2) by (metis of_int_abs of_int_less_numeral_power_cancel_iff)
  also have "(2 :: rat) ^ 64 < 2 ^ 1024 - 2 ^ 970" by simp
  finally show ?thesis by (simp add: fits_double_def)
qed

lemma int_truediv_zero: "int_truediv n 0 = Inl ZeroDivisionError"
  by (simp add: int_truediv_def)

lemma int_truediv_small:
  "d \<noteq> 0 \<Longrightarrow> \<bar>n\<bar> < 2 ^ 64 \<Longrightarrow> int_truediv n d = Inr (of_int n / of_int d)"
  by (simp add: int_truediv_def fits_double_small)

lemma get_gps_both_or_neither:
  assumes r: "get_gps_coordinates exif_data = Inr (lat, lon)"
  shows "(lat = None) = (lon = None)"
proof (cases "dict_get exif_data (KStr ''GPSInfo'')")
  case (PDict g)
  show ?thesis using r
    by (auto simp: get_gps_dict [OF PDict] bind_res_def split: if_splits sum.splits)
qed (use r in \<open>auto simp: get_gps_coordinates_def Let_def bind_res_simps split: if_splits\<close>)

lemma get_gps_empty: "get_gps_coordinates [] = Inr (None, None)"
  by (simp add: get_gps_coordinates_def dict_get_def)

lemmas eval_simps = get_exif_data_def bind_res_simps get_gps_coordinates_def
  dict_get_def dms_tuple_def component_def seq_get_def int_truediv_small int_truediv_zero
  convert_dms_to_decimal_def Let_def

subsection \<open>Missing fields\<close>

text \<open>
  Claim C3. Where the metadata has no GPS dictionary, or the GPS dictionary lacks any of
  the four fields (whichever of the others are there), the resolver returns
  \<^verbatim>\<open>(None, None)\<close>. And whatever the metadata, a pair it returns is never half
  resolved: the latitude is \<^verbatim>\<open>None\<close> exactly when the longitude is.
\<close>

theorem resolver_absent_when_field_missing:
  "(map_of exif_data (KStr ''GPSInfo'') = None
    \<or> (\<exists>g. map_of exif_data (KStr ''GPSInfo'') = Some (PDict g)
          \<and> (\<exists>k \<in> set required_fields. map_of g (KStr k) = None))
    \<longrightarrow> get_gps_coordinates exif_data = Inr (None, None))
   \<and> (\<forall>lat lon. get_gps_coordinates exif_data = Inr (lat, lon) \<longrightarrow> (lat = None) = (lon = None))"
proof (intro conjI impI allI)
  assume "map_of exif_data (KStr ''GPSInfo'') = None
    \<or> (\<exists>g. map_of exif_data (KStr ''GPSInfo'') = Some (PDict g)
          \<and> (\<exists>k \<in> set required_fields. map_of g (KStr k) = None))"
  then show "get_gps_coordinates exif_data = Inr (None, None)"
  proof
    assume "map_of exif_data (KStr ''GPSInfo'') = None"
    then show ?thesis by (simp add: get_gps_no_info dict_get_def)
  next
    assume "\<exists>g. map_of exif_data (KStr ''GPSInfo'') = Some (PDict g)
          \<and> (\<exists>k \<in> set required_fields. map_of g (KStr k) = None)"
    then obtain g k where g: "map_of exif_data (KStr ''GPSInfo'') = Some (PDict g)"
      and k: "k \<in> set required_fields" "map_of g (KStr k) = None" by blast
    have info: "dict_get exif_data (KStr ''GPSInfo'') = PDict g"
      using g by (simp add: dict_get_def)
    have "\<not> py_truthy (dict_get g (KStr k))" using k(2) by (simp add: dict_get_def)
    then show ?thesis using k(1)
      by (auto simp: get_gps_dict [OF info] required_fields_def)
  qed
next
  fix lat lon
  assume "get_gps_coordinates exif_data = Inr (lat, lon)"
  then show "(lat = None) = (lon = None)" by (rule get_gps_both_or_neither)
qed

theorem resolver_absent_when_field_missing_witness:
  "map_of no_lon_ref_exif (KStr ''GPSInfo'') \<noteq> None
   \<and> gps_field no_lon_ref_exif ''GPSLatitude'' \<noteq> PNone
   \<and> gps_field no_lon_ref_exif ''GPSLongitudeRef'' = PNone
   \<and> get_gps_coordinates no_lon_ref_exif = Inr (None, None)"
proof -
  have "\<exists>g. map_of no_lon_ref_exif (KStr ''GPSInfo'') = Some (PDict g)
          \<and> (\<exists>k \<in> set required_fields. map_of g (KStr k) = None)"
    by (simp add: no_lon_ref_exif_def required_fields_def)
  with resolver_absent_when_field_missing [of no_lon_ref_exif]
  have "get_gps_coordinates no_lon_ref_exif = Inr (None, None)" by blast
  then show ?thesis
    by (simp add: no_lon_ref_exif_def gps_field_def dict_get_def)
qed

subsection \<open>The conversion and its sign\<close>





text \<open>
  Claim C7. For the metadata with latitude (40, 26, 46) north and longitude
  (79, 56, 55) west the resolver returns a pair that agrees with (40.4461, -79.9486)
  to the four decimals given.
\<close>

theorem integer_exif_coordinates:
  "\<exists>lat lon. get_gps_coordinates integer_exif = Inr (Some lat, Some lon)
     \<and> \<bar>lat - 40.4461\<bar> < 0.00005 \<and> \<bar>lon - (- 79.9486)\<bar> < 0.00005"
proof -
  have "get_gps_coordinates integer_exif = Inr (Some (72803 / 1800), Some (- (57563 / 720)))"
    by (simp add: integer_exif_def eval_simps)
  moreover have "\<bar>(72803 / 1800 :: rat) - 40.4461\<bar> < 0.00005" by simp
  moreover have "\<bar>- (57563 / 720 :: rat) - (- 79.9486)\<bar> < 0.00005" by simp
  ultimately show ?thesis by blast
qed

subsection \<open>Empty fields\<close>

text \<open>
  Claim C10. Where the object stored under \<^verbatim>\<open>GPSInfo\<close> is false (an empty
  dictionary, \<^verbatim>\<open>None\<close>), or it is a dictionary in which one of the four fields is
  present with a false value (an empty string, an empty tuple), the resolver returns
  \<^verbatim>\<open>(None, None)\<close>.
\<close>

theorem resolver_absent_when_field_empty:
  assumes "map_of exif_data (KStr ''GPSInfo'') = Some info"
    and "\<not> py_truthy info
         \<or> (\<exists>g. info = PDict g
               \<and> (\<exists>k \<in> set required_fields. \<exists>v. map_of g (KStr k) = Some v \<and> \<not> py_truthy v))"
  shows "get_gps_coordinates exif_data = Inr (None, None)"
  using assms(2)
proof
  assume "\<not> py_truthy info"
  then show ?thesis using assms(1) by (simp add: get_gps_no_info dict_get_def)
next
  assume "\<exists>g. info = PDict g
               \<and> (\<exists>k \<in> set required_fields. \<exists>v. map_of g (KStr k) = Some v \<and> \<not> py_truthy v)"
  then obtain g k v where g: "info = PDict g" and k: "k \<in> set required_fields"
    and v: "map_of g (KStr k) = Some v" "\<not> py_truthy v" by blast
  have info: "dict_get exif_data (KStr ''GPSInfo'') = PDict g"
    using assms(1) g by (simp add: dict_get_def)
  have "\<not> py_truthy (dict_get g (KStr k))" using v by (simp add: dict_get_def)
  then show ?thesis using k
    by (auto simp: get_gps_dict [OF info] required_fields_def)
qed

theorem resolver_absent_when_field_empty_witness:
  "get_gps_coordinates (rational_exif (PStr ''N'') (PStr [])) = Inr (None, None)
   \<and> get_gps_coordinates (latitude_exif (PTuple [])) = Inr (None, None)
   \<and> get_gps_coordinates [(KStr ''GPSInfo'', PDict [])] = Inr (None, None)"
proof -
  have 1: "get_gps_coordinates (rational_exif (PStr ''N'') (PStr [])) = Inr (None, None)"
    by (rule resolver_absent_when_field_empty
          [where info = "PDict (rational_gps (PStr ''N'') (PStr []))"])
       (simp_all add: rational_exif_def rational_gps_def required_fields_def)
  have 2: "get_gps_coordinates (latitude_exif (PTuple [])) = Inr (None, None)"
    by (rule resolver_absent_when_field_empty
          [where info = "the (map_of (latitude_exif (PTuple [])) (KStr ''GPSInfo''))"])
       (simp_all add: latitude_exif_def required_fields_def)
  have 3: "get_gps_coordinates [(KStr ''GPSInfo'', PDict [])] = Inr (None, None)"
    by (rule resolver_absent_when_field_empty [where info = "PDict []"]) simp_all
  from 1 2 3 show ?thesis by simp
qed

subsection \<open>Malformed fields\<close>

text \<open>
  Claim C5 says that on a GPS structure that is present but malformed the resolver
  lets no exception through and reports absence. The code does not do that: it has no
  handler, and the guard on the four fields tests only that they are not empty. With
  the four fields present, a latitude whose seconds are the rational 0/0, a latitude of
  two components, and a latitude of floats each end the call with an exception.
\<close>

theorem malformed_dms_raises:
  "get_gps_coordinates (latitude_exif (PTuple [PRational 40 1, PRational 26 1, PRational 0 0]))
     = Inl ZeroDivisionError
   \<and> get_gps_coordinates (latitude_exif (PTuple [PRational 40 1, PRational 26 1]))
     = Inl IndexError
   \<and> get_gps_coordinates (latitude_exif (PTuple [PFloat 40, PFloat 26, PFloat 46]))
     = Inl AttributeError"
  by (simp add: latitude_exif_def eval_simps)

lemma component_ok:
  "(\<exists>q. component x i = Inr q)
    \<longleftrightarrow> (case py_getitem x (PInt i) of Inr a \<Rightarrow> rational_ok a | Inl e \<Rightarrow> False)"
  by (auto simp: component_def bind_res_def rational_ok_def int_truediv_def split: sum.splits)

lemma dms_tuple_ok: "(\<exists>t. dms_tuple x = Inr t) \<longleftrightarrow> dms_well_formed x"
proof -
  have c: "\<And>i. (case py_getitem x (PInt i) of Inr a \<Rightarrow> rational_ok a | Inl e \<Rightarrow> False)
            \<longleftrightarrow> (\<exists>q. component x i = Inr q)"
    by (simp add: component_ok)
  show ?thesis
    unfolding dms_well_formed_def
    by (auto simp: c dms_tuple_def bind_res_def split: sum.splits)
qed

text \<open>
  The inputs on which the resolver lets an exception through, whatever its kind. There
  are two cases: the object stored under \<^verbatim>\<open>GPSInfo\<close> is true and is not a
  dictionary; or it is a dictionary in which the four fields are all present and not
  empty, and the latitude or the longitude is not a well-formed DMS field. On every
  other metadata dictionary the resolver returns a pair.
\<close>

theorem resolver_raises_iff:
  "(\<exists>e. get_gps_coordinates exif_data = Inl e) \<longleftrightarrow>
     (case dict_get exif_data (KStr ''GPSInfo'') of
        PDict g \<Rightarrow>
          (\<forall>k \<in> set required_fields. py_truthy (dict_get g (KStr k)))
          \<and> \<not> (dms_well_formed (dict_get g (KStr ''GPSLatitude''))
                \<and> dms_well_formed (dict_get g (KStr ''GPSLongitude'')))
      | info \<Rightarrow> py_truthy info)"
proof (cases "dict_get exif_data (KStr ''GPSInfo'')")
  case (PDict g)
  have t: "py_truthy (dict_get g (KStr ''GPSLatitude'')) \<Longrightarrow> g \<noteq> []"
    by (auto simp: dict_get_def)
  show ?thesis
    using dms_tuple_ok [of "dict_get g (KStr ''GPSLatitude'')"]
      dms_tuple_ok [of "dict_get g (KStr ''GPSLongitude'')"] t
    by (auto simp: PDict get_gps_dict [OF PDict] required_fields_def bind_res_def
        split: sum.splits)
qed (simp_all add: get_gps_coordinates_def Let_def bind_res_simps)

theorem resolver_raises_iff_witness:
  "(\<exists>e. get_gps_coordinates (latitude_exif (PTuple [PRational 40 1, PRational 26 1])) = Inl e)
   \<and> \<not> (\<exists>e. get_gps_coordinates (latitude_exif (PTuple [])) = Inl e)
   \<and> \<not> (\<exists>e. get_gps_coordinates integer_exif = Inl e)"
  using resolver_raises_iff [of "latitude_exif (PTuple [PRational 40 1, PRational 26 1])"]
    resolver_raises_iff [of "latitude_exif (PTuple [])"]
    resolver_raises_iff [of integer_exif]
  by (simp add: latitude_exif_def integer_exif_def dict_get_def
      required_fields_def dms_well_formed_def rational_ok_def seq_get_def fits_double_def)

subsection \<open>The reader\<close>

text \<open>
  An image whose GPS block Pillow could not read: the tag before it is already stored
  when \<^verbatim>\<open>for t in value\<close> raises, the handler prints the exception, and the reader
  returns the dictionary with that one entry, not an empty one.
\<close>

theorem reader_returns_partial_mapping:
  "get_exif_data example_pillow ''photos/broken.jpg''
     = ([(KStr ''Make'', PStr ''Canon'')], [ExifError ''photos/broken.jpg'' TypeError])"
  by (simp add: example_pillow_def broken_items_def eval_simps)

lemma exif_entries_prefix:
  "exif_entries P items acc = (d, Some e)
    \<Longrightarrow> \<exists>n < length items. exif_entries P (take n items) acc = (d, None)"
proof (induction items arbitrary: acc)
  case Nil
  then show ?case by simp
next
  case (Cons item rest)
  obtain tag "value" where item: "item = (tag, value)" by (cases item)
  show ?case
  proof (cases "tag_name (TAGS P) (KInt tag) = KStr ''GPSInfo''")
    case True
    show ?thesis
    proof (cases "bind_res (py_iter value) (\<lambda>ts. gps_entries (GPSTAGS P) value ts [])")
      case (Inl e')
      with Cons.prems True item have "d = acc" by (simp add: Let_def)
      then have "exif_entries P (take 0 (item # rest)) acc = (d, None)" by simp
      then show ?thesis by (intro exI [of _ 0]) simp
    next
      case (Inr gps_data)
      let ?acc = "AList.update (KStr ''GPSInfo'') (PDict gps_data) acc"
      from Cons.prems True item Inr have "exif_entries P rest ?acc = (d, Some e)"
        by (simp add: Let_def)
      from Cons.IH [OF this] obtain n where n: "n < length rest"
        "exif_entries P (take n rest) ?acc = (d, None)" by blast
      then have "exif_entries P (take (Suc n) (item # rest)) acc = (d, None)"
        using True item Inr by (simp add: Let_def)
      with n(1) show ?thesis by (intro exI [of _ "Suc n"]) simp
    qed
  next
    case False
    let ?acc = "AList.update (tag_name (TAGS P) (KInt tag)) value acc"
    from Cons.prems False item have "exif_entries P rest ?acc = (d, Some e)"
      by (simp add: Let_def)
    from Cons.IH [OF this] obtain n where n: "n < length rest"
      "exif_entries P (take n rest) ?acc = (d, None)" by blast
    then have "exif_entries P (take (Suc n) (item # rest)) acc = (d, None)"
      using False item by (simp add: Let_def)
    with n(1) show ?thesis by (intro exI [of _ "Suc n"]) simp
  qed
qed

lemma gps_items_Cons:
  "gps_items P ((tag, value) # rest) =
     (if tag_name (TAGS P) (KInt tag) = KStr ''GPSInfo''
      then (tag, value) # gps_items P rest else gps_items P rest)"
  by (simp add: gps_items_def del: tag_name.simps)

lemma exif_entries_no_gps:
  "gps_items P items = [] \<Longrightarrow> snd (exif_entries P items acc) = None"
proof (induction items arbitrary: acc)
  case Nil
  then show ?case by simp
next
  case (Cons item rest)
  obtain tag "value" where item: "item = (tag, value)" by (cases item)
  from Cons.prems item have t: "tag_name (TAGS P) (KInt tag) \<noteq> KStr ''GPSInfo''"
    and r: "gps_items P rest = []"
    by (auto simp: gps_items_Cons split: if_splits)
  show ?case using t item Cons.IH [OF r] by (simp add: Let_def)
qed

lemma exif_entries_failure_no_gps:
  assumes "exif_entries P items acc = (d, Some e)"
    and "length (gps_items P items) \<le> 1"
    and "map_of acc (KStr ''GPSInfo'') = None"
  shows "map_of d (KStr ''GPSInfo'') = None"
  using assms
proof (induction items arbitrary: acc)
  case Nil
  then show ?case by simp
next
  case (Cons item rest)
  obtain tag "value" where item: "item = (tag, value)" by (cases item)
  show ?case
  proof (cases "tag_name (TAGS P) (KInt tag) = KStr ''GPSInfo''")
    case True
    with Cons.prems(2) item have r: "gps_items P rest = []"
      by (simp add: gps_items_Cons)
    show ?thesis
    proof (cases "bind_res (py_iter value) (\<lambda>ts. gps_entries (GPSTAGS P) value ts [])")
      case (Inl e')
      with Cons.prems(1) True item have "d = acc" by (simp add: Let_def)
      with Cons.prems(3) show ?thesis by simp
    next
      case (Inr gps_data)
      let ?acc = "AList.update (KStr ''GPSInfo'') (PDict gps_data) acc"
      from Cons.prems(1) True item Inr have "exif_entries P rest ?acc = (d, Some e)"
        by (simp add: Let_def)
      with exif_entries_no_gps [OF r, of ?acc] show ?thesis by simp
    qed
  next
    case False
    let ?acc = "AList.update (tag_name (TAGS P) (KInt tag)) value acc"
    from Cons.prems(1) False item have 1: "exif_entries P rest ?acc = (d, Some e)"
      by (simp add: Let_def)
    from Cons.prems(2) False item have 2: "length (gps_items P rest) \<le> 1"
      by (simp add: gps_items_Cons)
    from Cons.prems(3) False have 3: "map_of ?acc (KStr ''GPSInfo'') = None"
      by (simp add: update_conv')
    from Cons.IH [OF 1 2 3] show ?thesis .
  qed
qed

text \<open>
  Claim C6, amended. A failure of the reader is an exception of Pillow while the image is
  opened and its EXIF block read, or an exception while the items are decoded. In both
  cases the reader prints the exception and returns a dictionary; nothing is raised.
  In the first case the dictionary is empty. In the second case the dictionary is what
  the items before the failing one decode to, without a failure: it is empty only if
  the first item fails. A run of the page builder goes on with the next file, after the
  warning that the image has no GPS data, in the first case always, and in the second
  case when at most one item of the image is decoded as GPS dictionary, as is so with
  Pillow.
\<close>

theorem reader_failure:
  "(getexif P image_path = Inl e \<longrightarrow>
      get_exif_data P image_path = ([], [ExifError image_path e])
      \<and> collect_places P (image_path # rest) places_data out
          = collect_places P rest places_data
              (out @ [ExifError image_path e, NoGpsWarning image_path]))
   \<and> (getexif P image_path = Inr (Some items) \<and> exif_entries P items [] = (d, Some e) \<longrightarrow>
      get_exif_data P image_path = (d, [ExifError image_path e])
      \<and> (\<exists>n < length items. exif_entries P (take n items) [] = (d, None)))
   \<and> (getexif P image_path = Inr (Some items) \<and> exif_entries P items [] = (d, Some e)
        \<and> length (gps_items P items) \<le> 1 \<longrightarrow>
      collect_places P (image_path # rest) places_data out
          = collect_places P rest places_data
              (out @ [ExifError image_path e, NoGpsWarning image_path]))"
proof (intro conjI impI)
  assume f: "getexif P image_path = Inl e"
  then show r: "get_exif_data P image_path = ([], [ExifError image_path e])"
    by (simp add: get_exif_data_def)
  show "collect_places P (image_path # rest) places_data out
          = collect_places P rest places_data
              (out @ [ExifError image_path e, NoGpsWarning image_path])"
    by (simp add: r get_gps_empty)
next
  assume a: "getexif P image_path = Inr (Some items) \<and> exif_entries P items [] = (d, Some e)"
  then have "items \<noteq> []" by auto
  with a show "get_exif_data P image_path = (d, [ExifError image_path e])"
    by (simp add: get_exif_data_def)
  from a show "\<exists>n < length items. exif_entries P (take n items) [] = (d, None)"
    by (simp add: exif_entries_prefix)
next
  assume a: "getexif P image_path = Inr (Some items) \<and> exif_entries P items [] = (d, Some e)
        \<and> length (gps_items P items) \<le> 1"
  then have "items \<noteq> []" by auto
  with a have r: "get_exif_data P image_path = (d, [ExifError image_path e])"
    by (simp add: get_exif_data_def)
  from a have "map_of d (KStr ''GPSInfo'') = None"
    by (intro exif_entries_failure_no_gps [of P items "[]" d e]) simp_all
  then have "get_gps_coordinates d = Inr (None, None)"
    by (simp add: get_gps_no_info dict_get_def)
  then show "collect_places P (image_path # rest) places_data out
          = collect_places P rest places_data
              (out @ [ExifError image_path e, NoGpsWarning image_path])"
    by (simp add: r)
qed

theorem reader_failure_witness:
  "get_exif_data example_pillow ''photos/gone.jpg'' = ([], [ExifError ''photos/gone.jpg'' OSError])
   \<and> collect_places example_pillow [''photos/gone.jpg'', ''photos/scan.jpg''] [] []
       = collect_places example_pillow [''photos/scan.jpg''] []
           ([] @ [ExifError ''photos/gone.jpg'' OSError, NoGpsWarning ''photos/gone.jpg''])
   \<and> get_exif_data example_pillow ''photos/broken.jpg''
       = ([(KStr ''Make'', PStr ''Canon'')], [ExifError ''photos/broken.jpg'' TypeError])
   \<and> (\<exists>n < length broken_items.
         exif_entries example_pillow (take n broken_items) []
           = ([(KStr ''Make'', PStr ''Canon'')], None))
   \<and> collect_places example_pillow [''photos/broken.jpg'', ''photos/scan.jpg''] [] []
       = collect_places example_pillow [''photos/scan.jpg''] []
           ([] @ [ExifError ''photos/broken.jpg'' TypeError, NoGpsWarning ''photos/broken.jpg''])"
proof -
  have 1: "getexif example_pillow ''photos/gone.jpg'' = Inl OSError"
    by (simp add: example_pillow_def)
  have 2: "getexif example_pillow ''photos/broken.jpg'' = Inr (Some broken_items)
           \<and> exif_entries example_pillow broken_items []
             = ([(KStr ''Make'', PStr ''Canon'')], Some TypeError)"
    by (simp add: example_pillow_def broken_items_def bind_res_simps)
  have 3: "length (gps_items example_pillow broken_items) \<le> 1"
    by (simp add: gps_items_def example_pillow_def broken_items_def)
  from 2 3 have 4: "getexif example_pillow ''photos/broken.jpg'' = Inr (Some broken_items)
           \<and> exif_entries example_pillow broken_items []
             = ([(KStr ''Make'', PStr ''Canon'')], Some TypeError)
           \<and> length (gps_items example_pillow broken_items) \<le> 1"
    by (intro conjI) (rule 2 [THEN conjunct1], rule 2 [THEN conjunct2])
  note a = reader_failure [where P = example_pillow and image_path = "''photos/gone.jpg''"
      and e = OSError and rest = "[''photos/scan.jpg'']" and places_data = "[]" and out = "[]",
      THEN conjunct1, rule_format, OF 1]
  note b = reader_failure [where P = example_pillow and image_path = "''photos/broken.jpg''"
      and e = TypeError and d = "[(KStr ''Make'', PStr ''Canon'')]"
      and items = broken_items,
      THEN conjunct2, THEN conjunct1, rule_format, OF 2]
  note c = reader_failure [where P = example_pillow and image_path = "''photos/broken.jpg''"
      and e = TypeError and d = "[(KStr ''Make'', PStr ''Canon'')]"
      and items = broken_items and rest = "[''photos/scan.jpg'']" and places_data = "[]"
      and out = "[]",
      THEN conjunct2, THEN conjunct2, rule_format, OF 4]
  show ?thesis
    by (intro conjI a [THEN conjunct1] a [THEN conjunct2] b [THEN conjunct1]
        b [THEN conjunct2] c)
qed

subsection \<open>The page builder\<close>

lemma map_center_mean:
  "places_data \<noteq> [] \<Longrightarrow> map_center places_data =
     (sum_list (map place_lat places_data) / of_nat (length places_data),
      sum_list (map place_lon places_data) / of_nat (length places_data))"
  by (simp add: map_center_def)




lemma collect_places_step:
  assumes "\<forall>e. coordinates P f \<noteq> Inl e"
  shows "collect_places P (f # rest) ps out =
     collect_places P rest (ps @ resolved_places P [f]) (out @ printed_for P f)"
proof (cases "coordinates P f")
  case (Inl e)
  with assms show ?thesis by simp
next
  case (Inr c)
  obtain lat lon where c: "c = (lat, lon)" by (cases c)
  obtain exif printed where g: "get_exif_data P f = (exif, printed)"
    by (cases "get_exif_data P f")
  from Inr c g have r: "get_gps_coordinates exif = Inr (lat, lon)"
    by (simp add: coordinates_def)
  show ?thesis
    using r g Inr c
    by (cases lat; cases lon)
       (simp_all add: resolved_places_def printed_for_def place_of_def)
qed

lemma resolved_places_Cons:
  "resolved_places P (f # rest) = resolved_places P [f] @ resolved_places P rest"
  by (simp add: resolved_places_def split: option.splits)

lemma collect_places_resolved:
  assumes "\<forall>f \<in> set image_files. \<forall>e. coordinates P f \<noteq> Inl e"
  shows "collect_places P image_files ps out =
     (Inr (ps @ resolved_places P image_files), out @ concat (map (printed_for P) image_files))"
  using assms
proof (induction image_files arbitrary: ps out)
  case Nil
  then show ?case by (simp add: resolved_places_def)
next
  case (Cons f rest)
  from Cons.prems have f: "\<forall>e. coordinates P f \<noteq> Inl e"
    and rest: "\<forall>f \<in> set rest. \<forall>e. coordinates P f \<noteq> Inl e" by simp_all
  show ?case
    unfolding collect_places_step [OF f] Cons.IH [OF rest]
    by (simp add: resolved_places_Cons [of P f rest])
qed

lemma get_exif_data_events:
  "ev \<in> set (snd (get_exif_data P p)) \<Longrightarrow> \<exists>e. ev = ExifError p e"
  by (auto simp: get_exif_data_def split: sum.splits option.splits if_splits prod.splits)

lemma place_of_None:
  assumes "\<forall>e. coordinates P f \<noteq> Inl e"
  shows "place_of P f = None \<longleftrightarrow> coordinates P f = Inr (None, None)"
proof (cases "coordinates P f")
  case (Inl e)
  with assms show ?thesis by simp
next
  case (Inr c)
  obtain lat lon where c: "c = (lat, lon)" by (cases c)
  from Inr c have "get_gps_coordinates (fst (get_exif_data P f)) = Inr (lat, lon)"
    by (simp add: coordinates_def)
  from get_gps_both_or_neither [OF this] show ?thesis
    using Inr c by (cases lat; cases lon) (simp_all add: place_of_def)
qed

lemma warning_printed:
  assumes "\<forall>e. coordinates P g \<noteq> Inl e"
  shows "NoGpsWarning f \<in> set (printed_for P g)
    \<longleftrightarrow> f = g \<and> coordinates P g = Inr (None, None)"
  using get_exif_data_events [of "NoGpsWarning f" P g] place_of_None [OF assms]
  by (auto simp: printed_for_def)

lemma collect_places_raises:
  assumes "\<forall>g \<in> set before. \<forall>e. coordinates P g \<noteq> Inl e"
    and "coordinates P f = Inl e"
  shows "collect_places P (before @ f # rest) ps out =
     (Inl e, out @ concat (map (printed_for P) before) @ snd (get_exif_data P f))"
  using assms(1)
proof (induction before arbitrary: ps out)
  case Nil
  obtain exif printed where g: "get_exif_data P f = (exif, printed)"
    by (cases "get_exif_data P f")
  with assms(2) show ?case by (simp add: coordinates_def)
next
  case (Cons g before)
  from Cons.prems have g: "\<forall>e. coordinates P g \<noteq> Inl e"
    and r: "\<forall>g \<in> set before. \<forall>e. coordinates P g \<noteq> Inl e" by simp_all
  show ?case
    using collect_places_step [OF g, of "before @ f # rest" ps out] Cons.IH [OF r]
    by simp
qed

lemma raising_file_ends_run:
  assumes "\<forall>g \<in> set before. \<forall>e. coordinates P g \<noteq> Inl e"
    and "coordinates P f = Inl e"
  shows "generate_maps_html P R (before @ f # rest) =
     (Inl e, concat (map (printed_for P) before) @ snd (get_exif_data P f))"
  using collect_places_raises [OF assms, of rest "[]" "[]"]
  by (simp add: generate_maps_html_def)

text \<open>
  Claim C8 says that for every sequence of files the page holds the records of the
  files with resolved coordinates, and that every file without coordinates is left out
  and reported with a warning. The code breaks it on a sequence with an image whose
  latitude has the seconds 0/0: the exception of the resolver is not handled in
  \<^verbatim>\<open>generate_maps_html\<close>, so the call ends there. No page is returned, and the next
  file, which has no GPS data, is never reported.
\<close>

theorem malformed_file_ends_run:
  "(\<forall>R. generate_maps_html example_pillow R [''photos/zero.jpg'', ''photos/scan.jpg'']
          = (Inl ZeroDivisionError, []))
   \<and> coordinates example_pillow ''photos/scan.jpg'' = Inr (None, None)"
proof -
  have z: "coordinates example_pillow ''photos/zero.jpg'' = Inl ZeroDivisionError"
    by (simp add: coordinates_def example_pillow_def eval_simps)
  have p: "snd (get_exif_data example_pillow ''photos/zero.jpg'') = []"
    by (simp add: example_pillow_def eval_simps)
  have s: "coordinates example_pillow ''photos/scan.jpg'' = Inr (None, None)"
    by (simp add: coordinates_def example_pillow_def eval_simps)
  have "generate_maps_html example_pillow R [''photos/zero.jpg'', ''photos/scan.jpg'']
          = (Inl ZeroDivisionError, [])" for R
    using raising_file_ends_run [of "[]" example_pillow "''photos/zero.jpg''"
        ZeroDivisionError R "[''photos/scan.jpg'']"] z p
    by simp
  with s show ?thesis by blast
qed

text \<open>
  What holds of every run in which the resolver raises on none of the files. The call
  returns a page: the fixed text with, in the place of \<^verbatim>\<open>places_data\<close>, the list of
  the entries of exactly the files with both coordinates resolved, one entry for each, in
  the order of the files. The warning for a file is printed exactly when the file is
  among the input and its coordinates are \<^verbatim>\<open>(None, None)\<close>, and such a file has no
  entry. The center written into the page is the mean of the entries of the list.
\<close>

theorem page_holds_resolved_records:
  assumes "\<forall>f \<in> set image_files. \<forall>e. coordinates P f \<noteq> Inl e"
  shows "\<exists>out. generate_maps_html P R image_files =
           (Inr (page_head @ float_repr R (fst (map_center (resolved_places P image_files)))
                 @ page_sep @ float_repr R (snd (map_center (resolved_places P image_files)))
                 @ page_mid @ places_repr R (resolved_places P image_files) @ page_tail), out)
     \<and> (\<forall>f. NoGpsWarning f \<in> set out
              \<longleftrightarrow> f \<in> set image_files \<and> coordinates P f = Inr (None, None))
     \<and> (resolved_places P image_files \<noteq> [] \<longrightarrow>
          map_center (resolved_places P image_files) =
            (sum_list (map place_lat (resolved_places P image_files))
               / of_nat (length (resolved_places P image_files)),
             sum_list (map place_lon (resolved_places P image_files))
               / of_nat (length (resolved_places P image_files))))"
proof -
  let ?out = "concat (map (printed_for P) image_files)"
  have c: "collect_places P image_files [] [] = (Inr (resolved_places P image_files), ?out)"
    using collect_places_resolved [OF assms, of "[]" "[]"] by simp
  have page: "generate_maps_html P R image_files =
           (Inr (page_head @ float_repr R (fst (map_center (resolved_places P image_files)))
                 @ page_sep @ float_repr R (snd (map_center (resolved_places P image_files)))
                 @ page_mid @ places_repr R (resolved_places P image_files) @ page_tail), ?out)"
    by (simp add: generate_maps_html_def c maps_html_content_def split: prod.splits)
  have warn: "\<forall>f. NoGpsWarning f \<in> set ?out
              \<longleftrightarrow> f \<in> set image_files \<and> coordinates P f = Inr (None, None)"
    using assms by (auto simp: warning_printed)
  from page warn show ?thesis
    by (intro exI [of _ ?out]) (simp add: map_center_mean)
qed

lemma example_coordinates:
  "coordinates example_pillow ''photos/pittsburgh.jpg''
     = Inr (Some (place_lat pittsburgh), Some (place_lon pittsburgh))"
  "coordinates example_pillow ''photos/scan.jpg'' = Inr (None, None)"
  "coordinates example_pillow ''photos/sydney.jpg''
     = Inr (Some (place_lat sydney), Some (place_lon sydney))"
  by (simp_all add: coordinates_def example_pillow_def eval_simps pittsburgh_def sydney_def)

lemma example_resolved_places:
  "resolved_places example_pillow
     [''photos/pittsburgh.jpg'', ''photos/scan.jpg'', ''photos/sydney.jpg'']
   = [pittsburgh, sydney]"
  by (simp add: resolved_places_def place_of_def example_coordinates basename_def
      pittsburgh_def sydney_def)

theorem page_holds_resolved_records_witness:
  "\<forall>R. \<exists>out.
     generate_maps_html example_pillow R
       [''photos/pittsburgh.jpg'', ''photos/scan.jpg'', ''photos/sydney.jpg''] =
       (Inr (page_head @ float_repr R (fst (map_center [pittsburgh, sydney]))
             @ page_sep @ float_repr R (snd (map_center [pittsburgh, sydney]))
             @ page_mid @ places_repr R [pittsburgh, sydney] @ page_tail), out)
     \<and> NoGpsWarning ''photos/scan.jpg'' \<in> set out
     \<and> NoGpsWarning ''photos/sydney.jpg'' \<notin> set out"
proof
  fix R
  let ?files = "[''photos/pittsburgh.jpg'', ''photos/scan.jpg'', ''photos/sydney.jpg'']"
  have ok: "\<forall>f \<in> set ?files. \<forall>e. coordinates example_pillow f \<noteq> Inl e"
    by (simp add: example_coordinates)
  from page_holds_resolved_records [OF ok, of R]
  obtain out where page: "generate_maps_html example_pillow R ?files =
       (Inr (page_head @ float_repr R (fst (map_center [pittsburgh, sydney]))
             @ page_sep @ float_repr R (snd (map_center [pittsburgh, sydney]))
             @ page_mid @ places_repr R [pittsburgh, sydney] @ page_tail), out)"
    and warn: "\<forall>f. NoGpsWarning f \<in> set out
              \<longleftrightarrow> f \<in> set ?files \<and> coordinates example_pillow f = Inr (None, None)"
    unfolding example_resolved_places by blast
  have "NoGpsWarning ''photos/scan.jpg'' \<in> set out"
    unfolding warn [rule_format] by (simp add: example_coordinates)
  moreover have "NoGpsWarning ''photos/sydney.jpg'' \<notin> set out"
    unfolding warn [rule_format] by (simp add: example_coordinates)
  ultimately show "\<exists>out.
     generate_maps_html example_pillow R ?files =
       (Inr (page_head @ float_repr R (fst (map_center [pittsburgh, sydney]))
             @ page_sep @ float_repr R (snd (map_center [pittsburgh, sydney]))
             @ page_mid @ places_repr R [pittsburgh, sydney] @ page_tail), out)
     \<and> NoGpsWarning ''photos/scan.jpg'' \<in> set out
     \<and> NoGpsWarning ''photos/sydney.jpg'' \<notin> set out"
    using page by (intro exI [of _ out] conjI)
qed

text \<open>
  Claim C9. The page is a function of the list \<^verbatim>\<open>places_data\<close> alone (and of how
  Python writes floats and strings): two calls that collect the same list return the
  same text, whatever the files, the other metadata and the lines printed were.
\<close>

theorem page_determined_by_records:
  assumes "collect_places P image_files [] [] = (Inr places_data, out)"
    and "collect_places P' image_files' [] [] = (Inr places_data, out')"
  shows "fst (generate_maps_html P R image_files) = fst (generate_maps_html P' R image_files')
     \<and> fst (generate_maps_html P R image_files)
         = Inr (maps_html_content R (map_center places_data) places_data)"
  using assms by (simp add: generate_maps_html_def)

theorem page_determined_by_records_witness:
  "\<forall>R. fst (generate_maps_html example_pillow R [''photos/pittsburgh.jpg''])
        = fst (generate_maps_html example_pillow R
                 [''photos/gone.jpg'', ''photos/pittsburgh.jpg'', ''photos/scan.jpg''])"
proof
  fix R
  have ok1: "\<forall>f \<in> set [''photos/pittsburgh.jpg'']. \<forall>e. coordinates example_pillow f \<noteq> Inl e"
    by (simp add: example_coordinates)
  have gone: "coordinates example_pillow ''photos/gone.jpg'' = Inr (None, None)"
    by (simp add: coordinates_def example_pillow_def eval_simps)
  have ok2: "\<forall>f \<in> set [''photos/gone.jpg'', ''photos/pittsburgh.jpg'', ''photos/scan.jpg''].
               \<forall>e. coordinates example_pillow f \<noteq> Inl e"
    by (simp add: example_coordinates gone)
  have r1: "resolved_places example_pillow [''photos/pittsburgh.jpg''] = [pittsburgh]"
    by (simp add: resolved_places_def place_of_def example_coordinates basename_def
        pittsburgh_def)
  have r2: "resolved_places example_pillow
              [''photos/gone.jpg'', ''photos/pittsburgh.jpg'', ''photos/scan.jpg''] = [pittsburgh]"
    by (simp add: resolved_places_def place_of_def example_coordinates gone basename_def
        pittsburgh_def)
  have c1: "collect_places example_pillow [''photos/pittsburgh.jpg''] [] []
      = (Inr [pittsburgh], concat (map (printed_for example_pillow) [''photos/pittsburgh.jpg'']))"
    using collect_places_resolved [OF ok1, of "[]" "[]"] by (simp only: r1 append_Nil)
  have c2: "collect_places example_pillow
              [''photos/gone.jpg'', ''photos/pittsburgh.jpg'', ''photos/scan.jpg''] [] []
      = (Inr [pittsburgh], concat (map (printed_for example_pillow)
           [''photos/gone.jpg'', ''photos/pittsburgh.jpg'', ''photos/scan.jpg'']))"
    using collect_places_resolved [OF ok2, of "[]" "[]"] by (simp only: r2 append_Nil)
  from page_determined_by_records [OF c1 c2, of R]
  show "fst (generate_maps_html example_pillow R [''photos/pittsburgh.jpg''])
        = fst (generate_maps_html example_pillow R
                 [''photos/gone.jpg'', ''photos/pittsburgh.jpg'', ''photos/scan.jpg''])"
    by (rule conjunct1)
qed

end
